theory Spec2Isabelle
  imports Complex_Main
begin

section \<open>Numeric model\<close>

text \<open>
  Both scripts compute with NumPy \<^verbatim>\<open>float64\<close> scalars and arrays. A finite float is
  idealised as the real number it approximates: rounding, overflow and the sign of zero
  are not modelled. What is modelled is where NumPy leaves the finite numbers without
  raising: with the default error state, a division by zero and the square root of a
  negative number print a \<^verbatim>\<open>RuntimeWarning\<close> and return \<^verbatim>\<open>inf\<close>, \<^verbatim>\<open>-inf\<close> or \<^verbatim>\<open>nan\<close>.
  The thickness calculator is modelled on \<open>npfloat\<close>, which has these three values
  beside the finite ones. A zero divisor is taken as \<^verbatim>\<open>+0.0\<close>.
\<close>

datatype npfloat = Fin real | PInf | NInf | NaN

text \<open>
  The exceptions the modelled code can raise: a division by zero between two Python
  numbers (not NumPy values) raises \<^verbatim>\<open>ZeroDivisionError\<close>.
\<close>

datatype error = ZeroDivisionError

definition inf_of_sign :: "real \<Rightarrow> npfloat" where
  "inf_of_sign x = (if 0 < x then PInf else if x < 0 then NInf else NaN)"

fun np_mul :: "npfloat \<Rightarrow> npfloat \<Rightarrow> npfloat" where
  "np_mul (Fin x) (Fin y) = Fin (x * y)"
| "np_mul (Fin x) PInf = inf_of_sign x"
| "np_mul (Fin x) NInf = inf_of_sign (- x)"
| "np_mul PInf (Fin y) = inf_of_sign y"
| "np_mul NInf (Fin y) = inf_of_sign (- y)"
| "np_mul PInf PInf = PInf"
| "np_mul PInf NInf = NInf"
| "np_mul NInf PInf = NInf"
| "np_mul NInf NInf = PInf"
| "np_mul NaN y = NaN"
| "np_mul x NaN = NaN"

fun np_div :: "npfloat \<Rightarrow> npfloat \<Rightarrow> npfloat" where
  "np_div (Fin x) (Fin y) = (if y = 0 then inf_of_sign x else Fin (x / y))"
| "np_div (Fin x) PInf = Fin 0"
| "np_div (Fin x) NInf = Fin 0"
| "np_div PInf (Fin y) = (if y < 0 then NInf else PInf)"
| "np_div NInf (Fin y) = (if y < 0 then PInf else NInf)"
| "np_div PInf PInf = NaN"
| "np_div PInf NInf = NaN"
| "np_div NInf PInf = NaN"
| "np_div NInf NInf = NaN"
| "np_div NaN y = NaN"
| "np_div x NaN = NaN"

fun np_sub :: "npfloat \<Rightarrow> npfloat \<Rightarrow> npfloat" where
  "np_sub (Fin x) (Fin y) = Fin (x - y)"
| "np_sub (Fin x) PInf = NInf"
| "np_sub (Fin x) NInf = PInf"
| "np_sub PInf (Fin y) = PInf"
| "np_sub NInf (Fin y) = NInf"
| "np_sub PInf PInf = NaN"
| "np_sub PInf NInf = PInf"
| "np_sub NInf PInf = NInf"
| "np_sub NInf NInf = NaN"
| "np_sub NaN y = NaN"
| "np_sub x NaN = NaN"

text \<open>\<^verbatim>\<open>x ** n\<close> for a literal exponent \<open>n\<close>: \<^verbatim>\<open>x ** 0\<close> is 1 for every \<open>x\<close>.\<close>

fun np_pow :: "npfloat \<Rightarrow> nat \<Rightarrow> npfloat" where
  "np_pow x 0 = Fin 1"
| "np_pow x (Suc j) = np_mul x (np_pow x j)"

text \<open>\<^verbatim>\<open>np.sqrt\<close>: \<^verbatim>\<open>nan\<close> (and a warning) below zero, never an exception.\<close>

fun np_sqrt :: "npfloat \<Rightarrow> npfloat" where
  "np_sqrt (Fin x) = (if x < 0 then NaN else Fin (sqrt x))"
| "np_sqrt PInf = PInf"
| "np_sqrt NInf = NaN"
| "np_sqrt NaN = NaN"

text \<open>The comparison \<^verbatim>\<open><\<close> of floats: false whenever an operand is \<^verbatim>\<open>nan\<close>.\<close>

fun np_less :: "npfloat \<Rightarrow> npfloat \<Rightarrow> bool" where
  "np_less (Fin x) (Fin y) = (x < y)"
| "np_less (Fin x) PInf = True"
| "np_less NInf (Fin y) = True"
| "np_less NInf PInf = True"
| "np_less x y = False"

definition np_deg2rad :: "real \<Rightarrow> real" where
  "np_deg2rad x = x * (pi / 180)"

section \<open>The double-beam thickness calculator\<close>

text \<open>
  \<^verbatim>\<open>class EpilayerThicknessCalculator\<close> of \<^verbatim>\<open>doublebeam_epi_thickness.py\<close>. The
  object is a record; the five inputs are finite numbers; the result fields start as
  \<^verbatim>\<open>None\<close>. A method takes the object and returns its value with the updated object, or
  an exception. \<open>init\<close> is \<^verbatim>\<open>__init__\<close>, \<open>calc_cos_theta1\<close> is \<^verbatim>\<open>_calc_cos_theta1\<close> and
  \<open>calc_k\<close> is \<^verbatim>\<open>_calc_k\<close>; the two private methods run when only the inputs are set,
  so they are stated on the inputs' part of the record.
\<close>

record inputs =
  n1 :: real
  n2 :: real
  theta0_deg :: real
  nu_tilde :: real
  m :: real

record calc = inputs +
  cos_theta1 :: npfloat
  k :: real
  d :: "npfloat option"
  d_dn1 :: "npfloat option"
  d_dnu :: "npfloat option"

definition calc_cos_theta1 :: "'a inputs_scheme \<Rightarrow> error + npfloat" where
  "calc_cos_theta1 self =
     (let theta0_rad = np_deg2rad (theta0_deg self);
          sin_theta1 = np_div (Fin (sin theta0_rad)) (Fin (n1 self));
          cos_theta1 = np_sqrt (np_sub (Fin 1) (np_pow sin_theta1 2))
      in Inr cos_theta1)"

definition calc_k :: "'a inputs_scheme \<Rightarrow> error + real" where
  "calc_k self =
     (if n2 self > n1 self then Inr (m self) else Inr (m self - 0.5))"

definition init :: "real \<Rightarrow> real \<Rightarrow> real \<Rightarrow> real \<Rightarrow> real \<Rightarrow> error + calc" where
  "init n1' n2' theta0_deg' nu_tilde' m' =
     (let self = \<lparr>n1 = n1', n2 = n2', theta0_deg = theta0_deg', nu_tilde = nu_tilde',
                  m = m'\<rparr>
      in case calc_cos_theta1 self of
           Inl e \<Rightarrow> Inl e
         | Inr c \<Rightarrow>
             (case calc_k self of
                Inl e \<Rightarrow> Inl e
              | Inr k' \<Rightarrow>
                  Inr (inputs.extend self
                         \<lparr>cos_theta1 = c, k = k', d = None, d_dn1 = None, d_dnu = None\<rparr>)))"

definition calculate_thickness :: "calc \<Rightarrow> error + npfloat \<times> calc" where
  "calculate_thickness self =
     (let v = np_div (Fin (k self))
                (np_mul (np_mul (np_mul (Fin 2) (Fin (n1 self))) (cos_theta1 self))
                   (Fin (nu_tilde self)));
          self = self\<lparr>d := Some v\<rparr>
      in Inr (v, self))"

definition calculate_sensitivity :: "calc \<Rightarrow> error + (npfloat \<times> npfloat) \<times> calc" where
  "calculate_sensitivity self =
     (let v1 = np_div (Fin (- k self))
                 (np_mul (np_mul (np_mul (Fin 2) (Fin (nu_tilde self)))
                            (np_pow (Fin (n1 self)) 2))
                    (np_pow (cos_theta1 self) 3));
          self = self\<lparr>d_dn1 := Some v1\<rparr>;
          v2 = np_div (Fin (- k self))
                 (np_mul (np_mul (np_mul (Fin 2) (Fin (n1 self))) (cos_theta1 self))
                    (np_pow (Fin (nu_tilde self)) 2));
          self = self\<lparr>d_dnu := Some v2\<rparr>
      in Inr ((v1, v2), self))"

text \<open>
  \<^verbatim>\<open>print_results\<close>: the computations it triggers when a result is still \<^verbatim>\<open>None\<close>; the
  lines it prints read the object and are left out.
\<close>

definition print_results :: "calc \<Rightarrow> error + calc" where
  "print_results self =
     (if d self = None \<or> d_dn1 self = None \<or> d_dnu self = None
      then (case calculate_thickness self of
              Inl e \<Rightarrow> Inl e
            | Inr (v, self1) \<Rightarrow>
                (case calculate_sensitivity self1 of
                   Inl e \<Rightarrow> Inl e
                 | Inr (vs, self2) \<Rightarrow> Inr self2))
      else Inr self)"

section \<open>The multi-beam interference simulator\<close>

text \<open>
  \<^verbatim>\<open>thin_film_multibeam_interference_sim.py\<close>. Arrays are lists and the element-wise
  operations are maps; a finite float is the real (or complex) number it approximates.
  Where NumPy would divide by zero or leave the domain of \<^verbatim>\<open>arcsin\<close> it returns
  \<^verbatim>\<open>inf\<close> or \<^verbatim>\<open>nan\<close> in that cell and goes on; the real-valued model has some number
  there, so a statement about a value is meant for the cells where every divisor is
  non-zero and \<open>\<bar>sin i / n\<bar> \<le> 1\<close>.

  The module-level \<^verbatim>\<open>Ai\<close> and \<^verbatim>\<open>a\<close> are \<open>Ai_global\<close> and \<open>a_global\<close>: the function
  \<^verbatim>\<open>calculate_interference\<close> has parameters of the same names, which hide them in its
  body, but \<^verbatim>\<open>Asi\<close>, \<^verbatim>\<open>Api\<close> and the \<^verbatim>\<open>a\<close> inside \<^verbatim>\<open>P\<close> are the module-level ones. The
  parameter \<^verbatim>\<open>lambda_\<close> is \<open>lambda\<close>. \<^verbatim>\<open>np.arange\<close> on floats has
  \<open>ceil ((stop - start) / step)\<close> elements \<open>start + j \<cdot> step\<close>; it divides the two Python
  numbers \<open>stop - start\<close> and \<open>step\<close>, and so raises for a zero step. The other division
  of two Python numbers is \<^verbatim>\<open>4 * np.pi / lambda_\<close>, which raises for a zero wavelength
  after the sweep is built. \<^verbatim>\<open>np.arange(N)\<close> and \<^verbatim>\<open>np.arange(1, N + 1)\<close> on the integer
  \<open>N\<close> are \<open>[0..N - 1]\<close> and \<open>[1..N]\<close>. The six returned sequences are the fields of
  \<open>sim_result\<close>, in the order of the \<^verbatim>\<open>return\<close> statement.
\<close>

definition Ai_global :: real where "Ai_global = 1"
definition a_global :: real where "a_global = 25 * pi / 180"
definition Asi :: real where "Asi = Ai_global * sin a_global"
definition Api :: real where "Api = Ai_global * cos a_global"

definition P :: "real \<Rightarrow> real \<Rightarrow> real" where
  "P rs rp = (rs * sin a_global)\<^sup>2 + (rp * cos a_global)\<^sup>2"

definition Rs :: "real \<Rightarrow> real \<Rightarrow> real" where
  "Rs i r = - sin (i - r) / sin (i + r)"

definition Rp :: "real \<Rightarrow> real \<Rightarrow> real" where
  "Rp i r = tan (i - r) / tan (i + r)"

definition Ts :: "real \<Rightarrow> real \<Rightarrow> real" where
  "Ts i r = 2 * sin r * cos i / sin (i + r)"

definition Tp :: "real \<Rightarrow> real \<Rightarrow> real" where
  "Tp i r = 2 * sin r * cos i / (sin (i + r) * cos (i - r))"

definition np_arange :: "real \<Rightarrow> real \<Rightarrow> real \<Rightarrow> error + real list" where
  "np_arange start stop step =
     (if step = 0 then Inl ZeroDivisionError
      else Inr (map (\<lambda>j. start + real j * step) [0..<nat \<lceil>(stop - start) / step\<rceil>]))"

record sim_result =
  ret_i1 :: "real list"
  ret_It_1 :: "real list"
  ret_It_2 :: "real list"
  ret_s_amplitudes :: "real list"
  ret_p_amplitudes :: "real list"
  ret_orders :: "int list"

definition calculate_interference ::
  "int \<Rightarrow> real \<Rightarrow> real \<Rightarrow> real \<Rightarrow> real \<Rightarrow> real \<Rightarrow> real \<Rightarrow> real \<Rightarrow> real \<Rightarrow> error + sim_result" where
  "calculate_interference N lambda n h Ai a theta_max delta_theta fixed_angle =
     (case np_arange (- theta_max) (theta_max + delta_theta) delta_theta of
        Inl e \<Rightarrow> Inl e
      | Inr i1 \<Rightarrow>
         if lambda = 0 then Inl ZeroDivisionError
         else
         (let r1 = map (\<lambda>i. arcsin (sin i / n)) i1;
              delta = map (\<lambda>r. 4 * pi / lambda * n * h * cos r) r1;
              As = map2 (\<lambda>i r. Asi * Ts i r * Ts r i) i1 r1;
              Ap = map2 (\<lambda>i r. Api * Tp i r * Tp r i) i1 r1;
              powers = [0..N - 1];
              rs_pows = map2 (\<lambda>r i. map (\<lambda>p. Rs r i ^ nat (2 * p)) powers) r1 i1;
              rp_pows = map2 (\<lambda>r i. map (\<lambda>p. Rp r i ^ nat (2 * p)) powers) r1 i1;
              exp_terms = map (\<lambda>dl. map (\<lambda>p. exp (\<i> * complex_of_real dl) ^ nat p) powers) delta;
              Ast = map2 (\<lambda>(A, row) es. map2 (\<lambda>x e. complex_of_real (A * x) * e) row es)
                      (zip As rs_pows) exp_terms;
              Apt = map2 (\<lambda>(A, row) es. map2 (\<lambda>x e. complex_of_real (A * x) * e) row es)
                      (zip Ap rp_pows) exp_terms;
              It_1 = map2 (\<lambda>srow prow. (cmod (sum_list srow))\<^sup>2 + (cmod (sum_list prow))\<^sup>2)
                       Ast Apt;
              rs_vals = map2 Rs i1 r1;
              rp_vals = map2 Rp i1 r1;
              p = map2 P rs_vals rp_vals;
              It_2 = map2 (\<lambda>p dl. (1 - p)\<^sup>2 / ((1 - p)\<^sup>2 + 4 * p * (sin (dl / 2))\<^sup>2) * Ai\<^sup>2)
                       p delta;
              ii = fixed_angle;
              r = arcsin (sin ii / n);
              As_dir = Asi * Ts ii r * Ts r ii;
              Ap_dir = Api * Tp ii r * Tp r ii;
              orders = [1..N];
              s_amplitudes = map (\<lambda>order. As_dir * ((Rs ii r)\<^sup>2) ^ nat (order - 1)) orders;
              p_amplitudes = map (\<lambda>order. Ap_dir * ((Rp ii r)\<^sup>2) ^ nat (order - 1)) orders
          in Inr \<lparr>ret_i1 = i1, ret_It_1 = It_1, ret_It_2 = It_2,
                   ret_s_amplitudes = s_amplitudes, ret_p_amplitudes = p_amplitudes,
                   ret_orders = orders\<rparr>))"

section \<open>The formulas of the specification\<close>

text \<open>
  The refraction cosine and the thickness as the specification writes them, on real
  numbers: \<open>sin(refraction) = sin(incidence_rad) / n1\<close>, the cosine is
  \<open>sqrt (1 - sin(refraction)\<^sup>2)\<close>, and \<open>d = k / (2 \<cdot> n1 \<cdot> cos(refraction) \<cdot> wavenumber)\<close>.
\<close>

definition spec_cos_refraction :: "real \<Rightarrow> real \<Rightarrow> real" where
  "spec_cos_refraction incidence_deg n = sqrt (1 - (sin (incidence_deg * pi / 180) / n)\<^sup>2)"

definition spec_thickness :: "real \<Rightarrow> real \<Rightarrow> real \<Rightarrow> real \<Rightarrow> real" where
  "spec_thickness kk n c wavenumber = kk / (2 * n * c * wavenumber)"






text \<open>
  The geometric law of the per-order amplitudes, for the orders \<open>1, \<dots>, N\<close>, and a
  sequence strictly decreasing in magnitude.
\<close>

definition spec_geometric :: "real \<Rightarrow> real \<Rightarrow> int \<Rightarrow> real list" where
  "spec_geometric direct_amplitude reflectance N =
     map (\<lambda>order. direct_amplitude * (reflectance\<^sup>2) ^ nat (order - 1)) [1..N]"

definition strictly_decreasing_magnitude :: "real list \<Rightarrow> bool" where
  "strictly_decreasing_magnitude xs = sorted_wrt (\<lambda>x y. \<bar>y\<bar> < \<bar>x\<bar>) xs"

section \<open>Auxiliary facts\<close>

subsection \<open>The thickness calculator on finite values\<close>

lemma sin_deg_nonneg:
  assumes "0 \<le> t" "t \<le> 90"
  shows "0 \<le> sin (np_deg2rad t)"
proof -
  have "0 \<le> np_deg2rad t" using assms by (simp add: np_deg2rad_def)
  moreover have "np_deg2rad t \<le> pi" using assms pi_gt_zero by (simp add: np_deg2rad_def)
  ultimately show ?thesis by (rule sin_ge_zero)
qed

lemma radicand_pos:
  assumes "0 \<le> s" "s < (a::real)"
  shows "0 < 1 - (s / a)\<^sup>2"
proof -
  have a: "0 < a" using assms by simp
  have "0 \<le> s / a" using assms a by simp
  moreover have "s / a < 1" using assms a by simp
  ultimately have "(s / a)\<^sup>2 < 1" by (simp add: power_less_one_iff abs_square_less_1)
  then show ?thesis by simp
qed

lemma init_finite:
  assumes "n1' \<noteq> 0" "0 \<le> 1 - (sin (np_deg2rad theta0_deg') / n1')\<^sup>2"
  shows "init n1' n2' theta0_deg' nu_tilde' m' =
     Inr \<lparr>n1 = n1', n2 = n2', theta0_deg = theta0_deg', nu_tilde = nu_tilde', m = m',
          cos_theta1 = Fin (spec_cos_refraction theta0_deg' n1'),
          k = (if n2' > n1' then m' else m' - 0.5), d = None, d_dn1 = None, d_dnu = None\<rparr>"
  using assms
  by (simp add: init_def calc_cos_theta1_def calc_k_def Let_def inputs.defs calc.defs
      numeral_2_eq_2 power2_eq_square spec_cos_refraction_def np_deg2rad_def)

lemma thickness_finite:
  assumes "cos_theta1 self = Fin c" "2 * n1 self * c * nu_tilde self \<noteq> 0"
  shows "calculate_thickness self =
     Inr (Fin (spec_thickness (k self) (n1 self) c (nu_tilde self)),
          self\<lparr>d := Some (Fin (spec_thickness (k self) (n1 self) c (nu_tilde self)))\<rparr>)"
  using assms by (simp add: calculate_thickness_def Let_def spec_thickness_def)

lemma sensitivity_finite:
  assumes "cos_theta1 self = Fin c" "n1 self \<noteq> 0" "c \<noteq> 0" "nu_tilde self \<noteq> 0"
  shows "calculate_sensitivity self =
     Inr ((Fin (- k self / (2 * nu_tilde self * (n1 self)\<^sup>2 * c ^ 3)),
           Fin (- k self / (2 * n1 self * c * (nu_tilde self)\<^sup>2))),
          self\<lparr>d_dn1 := Some (Fin (- k self / (2 * nu_tilde self * (n1 self)\<^sup>2 * c ^ 3))),
               d_dnu := Some (Fin (- k self / (2 * n1 self * c * (nu_tilde self)\<^sup>2)))\<rparr>)"
  using assms
  by (simp add: calculate_sensitivity_def Let_def numeral_2_eq_2 numeral_3_eq_3)

lemma sqrt3_bounds: "1.73205 < sqrt 3" "sqrt 3 < 1.7321"
proof -
  show "1.73205 < sqrt 3" by (rule real_less_rsqrt) (simp add: power2_eq_square)
  show "sqrt 3 < 1.7321" by (rule real_less_lsqrt) (simp_all add: power2_eq_square)
qed

lemma sin_15_sq: "(sin (np_deg2rad 15))\<^sup>2 = (2 - sqrt 3) / 4"
proof -
  have e: "np_deg2rad 15 = pi / 12" by (simp add: np_deg2rad_def)
  have "cos (2 * (pi / 12)) = 1 - 2 * (sin (pi / 12))\<^sup>2" by (rule cos_double_sin)
  moreover have "2 * (pi / 12) = pi / 6" by simp
  ultimately have "sqrt 3 / 2 = 1 - 2 * (sin (pi / 12))\<^sup>2" by (simp add: cos_30)
  then show ?thesis unfolding e by (simp add: field_simps)
qed

lemma default_radicand:
  "1 - (sin (np_deg2rad 15) / 2.65)\<^sup>2 = 1 - (2 - sqrt 3) / 28.09"
proof -
  have "(sin (np_deg2rad 15) / 2.65)\<^sup>2 = (sin (np_deg2rad 15))\<^sup>2 / 2.65\<^sup>2"
    by (rule power_divide)
  also have "\<dots> = ((2 - sqrt 3) / 4) / 2.65\<^sup>2" by (simp only: sin_15_sq)
  also have "\<dots> = (2 - sqrt 3) / 28.09" by (simp add: power2_eq_square)
  finally show ?thesis by simp
qed

lemma default_cos_bounds:
  "0.995219 < sqrt (1 - (sin (np_deg2rad 15) / 2.65)\<^sup>2)"
  "sqrt (1 - (sin (np_deg2rad 15) / 2.65)\<^sup>2) < 0.99522"
proof -
  have lo: "0.995219\<^sup>2 < 1 - (2 - sqrt 3) / 28.09"
    using sqrt3_bounds(1) by (simp add: power2_eq_square field_simps)
  have hi: "1 - (2 - sqrt 3) / 28.09 < 0.99522\<^sup>2"
    using sqrt3_bounds(2) by (simp add: power2_eq_square field_simps)
  show "0.995219 < sqrt (1 - (sin (np_deg2rad 15) / 2.65)\<^sup>2)"
    unfolding default_radicand using lo by (rule real_less_rsqrt)
  show "sqrt (1 - (sin (np_deg2rad 15) / 2.65)\<^sup>2) < 0.99522"
    unfolding default_radicand using hi by (intro real_less_lsqrt) simp_all
qed

subsection \<open>Lists built from one list\<close>






subsection \<open>The Fresnel coefficients\<close>



lemma Asi_Api_pos: "0 < Asi" "0 < Api"
proof -
  have 1: "0 < a_global" by (simp add: a_global_def)
  have 2: "a_global < pi / 2" using pi_gt_zero by (simp add: a_global_def)
  have "0 < sin a_global" using 1 2 by (simp add: sin_gt_zero2)
  then show "0 < Asi" by (simp add: Asi_def Ai_global_def)
  have "0 < cos a_global" using 1 2 by (simp add: cos_gt_zero)
  then show "0 < Api" by (simp add: Api_def Ai_global_def)
qed

lemma fresnel_regular:
  assumes "0 < r" "r < i" "i + r < pi / 2"
  shows "0 < (Rs i r)\<^sup>2" "(Rs i r)\<^sup>2 < 1" "0 < (Rp i r)\<^sup>2" "(Rp i r)\<^sup>2 < 1"
    "Ts i r * Ts r i \<noteq> 0" "Tp i r * Tp r i \<noteq> 0"
proof -
  have d: "0 < i - r" "i - r < i + r" "i - r < pi / 2" "0 < i + r" "0 < i" "i < pi / 2" "r < pi / 2"
    using assms by simp_all
  have s1: "0 < sin (i - r)" using d by (simp add: sin_gt_zero2)
  have s2: "0 < sin (i + r)" using d assms by (simp add: sin_gt_zero2)
  have s3: "sin (i - r) < sin (i + r)"
    using d assms by (intro sin_monotone_2pi) simp_all
  have t1: "0 < tan (i - r)" using d by (simp add: tan_gt_zero)
  have t2: "0 < tan (i + r)" using d assms by (simp add: tan_gt_zero)
  have t3: "tan (i - r) < tan (i + r)"
    using d assms by (intro tan_monotone) simp_all
  have rs: "\<bar>Rs i r\<bar> = sin (i - r) / sin (i + r)"
    using s1 s2 by (simp add: Rs_def abs_if)
  have "0 < \<bar>Rs i r\<bar>" "\<bar>Rs i r\<bar> < 1" unfolding rs using s1 s2 s3 by simp_all
  then show "0 < (Rs i r)\<^sup>2" "(Rs i r)\<^sup>2 < 1"
    by (simp_all add: abs_square_less_1)
  have rp: "\<bar>Rp i r\<bar> = tan (i - r) / tan (i + r)"
    using t1 t2 by (simp add: Rp_def)
  have "0 < \<bar>Rp i r\<bar>" "\<bar>Rp i r\<bar> < 1" unfolding rp using t1 t2 t3 by simp_all
  then show "0 < (Rp i r)\<^sup>2" "(Rp i r)\<^sup>2 < 1"
    by (simp_all add: abs_square_less_1)
  have c: "0 < sin r" "0 < sin i" "0 < cos i" "0 < cos r"
    using d assms by (simp_all add: sin_gt_zero2 cos_gt_zero)
  have c2: "0 < cos (i - r)" "0 < cos (r - i)"
    using d assms by (simp_all add: cos_gt_zero_pi)
  show "Ts i r * Ts r i \<noteq> 0" using c s2 by (simp add: Ts_def add.commute)
  show "Tp i r * Tp r i \<noteq> 0" using c c2 s2 by (simp add: Tp_def add.commute)
qed

lemma refraction_45: "arcsin (sin (pi / 4) / sqrt 2) = pi / 6"
proof -
  have "sin (pi / 4) / sqrt 2 = (sqrt 2 / 2) / sqrt 2" by (simp only: sin_45)
  also have "\<dots> = 1 / 2" by simp
  also have "\<dots> = sin (pi / 6)" by (simp only: sin_30)
  finally have h: "sin (pi / 4) / sqrt 2 = sin (pi / 6)" .
  have "arcsin (sin (pi / 6)) = pi / 6" by (rule arcsin_sin) simp_all
  then show ?thesis by (simp only: h)
qed

lemma refraction_same: "arcsin (sin (15 * pi / 180) / 1) = 15 * pi / 180"
proof -
  have "arcsin (sin (15 * pi / 180)) = 15 * pi / 180" by (rule arcsin_sin) simp_all
  then show ?thesis by simp
qed

lemma Rs_same: "Rs x x = 0" by (simp add: Rs_def)

subsection \<open>The sums over the orders\<close>



subsection \<open>The angle sweep\<close>

lemma arange_nonempty:
  assumes "0 < step" "start < stop"
  shows "0 < nat \<lceil>(stop - start) / step\<rceil>"
proof -
  have "0 < (stop - start) / step" using assms by simp
  then have "0 < \<lceil>(stop - start) / step\<rceil>" by (simp add: ceiling_less_iff less_ceiling_iff)
  then show ?thesis by simp
qed

lemma pred_step:
  assumes "0 < (L::nat)" "x \<le> real L * step"
  shows "x - step \<le> real (L - 1) * step"
proof (cases L)
  case 0
  then show ?thesis using assms by simp
next
  case (Suc L')
  then show ?thesis using assms by (simp add: algebra_simps)
qed

lemma arange_last_index:
  assumes "0 < step" "start < stop"
  shows "stop - step \<le> start + real (nat \<lceil>(stop - start) / step\<rceil> - 1) * step"
proof -
  let ?L = "nat \<lceil>(stop - start) / step\<rceil>"
  have pos: "0 < ?L" using assms by (rule arange_nonempty)
  have "(stop - start) / step \<le> real_of_int \<lceil>(stop - start) / step\<rceil>" by (rule le_of_int_ceiling)
  also have "\<dots> = real ?L" using pos by simp
  finally have "(stop - start) / step \<le> real ?L" .
  then have "stop - start \<le> real ?L * step" using assms(1) by (simp add: pos_divide_le_eq)
  with pos have "stop - start - step \<le> real (?L - 1) * step" by (rule pred_step)
  then show ?thesis by linarith
qed

subsection \<open>Geometric sequences\<close>

lemma geometric_decreasing:
  assumes "A \<noteq> 0" "0 < q" "q < (1::real)"
  shows "sorted_wrt (\<lambda>x y. \<bar>y\<bar> < \<bar>x\<bar>) (map (\<lambda>order. A * q ^ nat (order - 1)) [1..N])"
proof -
  have step: "\<bar>A * q ^ nat (y - 1)\<bar> < \<bar>A * q ^ nat (x - 1)\<bar>"
    if "x \<in> set [1..N]" "x < y" for x y :: int
  proof -
    have "nat (x - 1) < nat (y - 1)" using that by simp
    then have "q ^ nat (y - 1) < q ^ nat (x - 1)"
      using assms(2,3) by (rule power_strict_decreasing)
    moreover have "0 < \<bar>A\<bar>" using assms(1) by simp
    ultimately have "\<bar>A\<bar> * q ^ nat (y - 1) < \<bar>A\<bar> * q ^ nat (x - 1)"
      by (simp add: mult_strict_left_mono)
    moreover have "0 \<le> q ^ nat (y - 1)" "0 \<le> q ^ nat (x - 1)" using assms(2) by simp_all
    ultimately show ?thesis by (simp add: abs_mult)
  qed
  have "sorted_wrt (<) [1..N]" by simp
  then have "sorted_wrt (\<lambda>x y. \<bar>A * q ^ nat (y - 1)\<bar> < \<bar>A * q ^ nat (x - 1)\<bar>) [1..N]"
    by (rule sorted_wrt_mono_rel [rotated]) (use step in blast)
  then show ?thesis by (simp add: sorted_wrt_map)
qed

subsection \<open>The default inputs\<close>

lemma default_cos:
  "0.995219 < spec_cos_refraction 15 2.65" "spec_cos_refraction 15 2.65 < 0.99522"
proof -
  have e: "spec_cos_refraction 15 2.65 = sqrt (1 - (sin (np_deg2rad 15) / 2.65)\<^sup>2)"
    by (simp add: spec_cos_refraction_def np_deg2rad_def)
  show "0.995219 < spec_cos_refraction 15 2.65" unfolding e by (rule default_cos_bounds(1))
  show "spec_cos_refraction 15 2.65 < 0.99522" unfolding e by (rule default_cos_bounds(2))
qed

lemma thickness_bounds:
  assumes "0.995219 < c" "c < 0.99522"
  shows "1.89585 / 10 ^ 4 < spec_thickness 1 2.65 c 1000"
    "spec_thickness 1 2.65 c 1000 < 1.89595 / 10 ^ 4"
proof -
  have c: "0 < c" using assms by simp
  have e: "spec_thickness 1 2.65 c 1000 = 1 / (5300 * c)" by (simp add: spec_thickness_def)
  have "(1.89585 / 10 ^ 4) * (5300 * c) < 1" using assms by simp
  then show "1.89585 / 10 ^ 4 < spec_thickness 1 2.65 c 1000"
    unfolding e using c by (simp add: pos_less_divide_eq)
  have "1 < (1.89595 / 10 ^ 4) * (5300 * c)" using assms by simp
  then show "spec_thickness 1 2.65 c 1000 < 1.89595 / 10 ^ 4"
    unfolding e using c by (simp add: pos_divide_less_eq)
qed

lemma default_init:
  "init 2.65 2.68 15 1000 1 =
     Inr \<lparr>n1 = 2.65, n2 = 2.68, theta0_deg = 15, nu_tilde = 1000, m = 1,
          cos_theta1 = Fin (spec_cos_refraction 15 2.65),
          k = 1, d = None, d_dn1 = None, d_dnu = None\<rparr>"
proof -
  have "sin (np_deg2rad 15) \<le> 1" by (rule sin_le_one)
  also have "(1::real) < 2.65" by simp
  finally have h: "sin (np_deg2rad 15) < 2.65" .
  have "0 \<le> sin (np_deg2rad 15)" by (rule sin_deg_nonneg) simp_all
  then have "0 < 1 - (sin (np_deg2rad 15) / 2.65)\<^sup>2" using h by (rule radicand_pos)
  then have "init 2.65 2.68 15 1000 1 =
     Inr \<lparr>n1 = 2.65, n2 = 2.68, theta0_deg = 15, nu_tilde = 1000, m = 1,
          cos_theta1 = Fin (spec_cos_refraction 15 2.65),
          k = (if (2.68::real) > 2.65 then 1 else 1 - 0.5), d = None, d_dn1 = None, d_dnu = None\<rparr>"
    by (intro init_finite) simp_all
  then show ?thesis by simp
qed

lemma default_thickness:
  "calculate_thickness
     \<lparr>n1 = 2.65, n2 = 2.68, theta0_deg = 15, nu_tilde = 1000, m = 1,
      cos_theta1 = Fin (spec_cos_refraction 15 2.65),
      k = 1, d = None, d_dn1 = None, d_dnu = None\<rparr> =
   Inr (Fin (spec_thickness 1 2.65 (spec_cos_refraction 15 2.65) 1000),
     \<lparr>n1 = 2.65, n2 = 2.68, theta0_deg = 15, nu_tilde = 1000, m = 1,
      cos_theta1 = Fin (spec_cos_refraction 15 2.65),
      k = 1, d = Some (Fin (spec_thickness 1 2.65 (spec_cos_refraction 15 2.65) 1000)),
      d_dn1 = None, d_dnu = None\<rparr>)"
proof -
  let ?self = "\<lparr>n1 = 2.65, n2 = 2.68, theta0_deg = 15, nu_tilde = 1000, m = 1,
      cos_theta1 = Fin (spec_cos_refraction 15 2.65),
      k = 1, d = None, d_dn1 = None, d_dnu = None\<rparr>"
  have c: "spec_cos_refraction 15 2.65 \<noteq> 0" using default_cos(1) by simp
  have "calculate_thickness ?self =
     Inr (Fin (spec_thickness (k ?self) (n1 ?self) (spec_cos_refraction 15 2.65) (nu_tilde ?self)),
          ?self\<lparr>d := Some (Fin (spec_thickness (k ?self) (n1 ?self) (spec_cos_refraction 15 2.65)
             (nu_tilde ?self)))\<rparr>)"
    using c by (intro thickness_finite) simp_all
  then show ?thesis by simp
qed

subsection \<open>The amplitudes at the fixed angle\<close>

lemma interference_amplitudes:
  assumes "delta_theta \<noteq> 0" "lambda \<noteq> 0"
  shows "\<exists>res. calculate_interference N lambda n h Ai a theta_max delta_theta fixed_angle = Inr res \<and>
    ret_orders res = [1..N] \<and>
    ret_s_amplitudes res =
      spec_geometric (Asi * Ts fixed_angle (arcsin (sin fixed_angle / n)) * Ts (arcsin (sin fixed_angle / n)) fixed_angle)
        (Rs fixed_angle (arcsin (sin fixed_angle / n))) N \<and>
    ret_p_amplitudes res =
      spec_geometric (Api * Tp fixed_angle (arcsin (sin fixed_angle / n)) * Tp (arcsin (sin fixed_angle / n)) fixed_angle)
        (Rp fixed_angle (arcsin (sin fixed_angle / n))) N"
  using assms
  by (simp add: calculate_interference_def np_arange_def Let_def spec_geometric_def)

lemma geometric_strict:
  assumes "A \<noteq> 0" "0 < R\<^sup>2" "R\<^sup>2 < (1::real)"
  shows "strictly_decreasing_magnitude (spec_geometric A R N)"
  unfolding strictly_decreasing_magnitude_def spec_geometric_def
  using assms by (rule geometric_decreasing)

lemma Ts_same:
  assumes "0 < x" "x < pi / 2"
  shows "Ts x x = 1"
proof -
  have "0 < sin x" "0 < cos x" using assms by (simp_all add: sin_gt_zero2 cos_gt_zero)
  then have "sin (x + x) \<noteq> 0" "sin (x + x) = 2 * sin x * cos x"
    using sin_double [of x] by simp_all
  then show ?thesis by (simp add: Ts_def)
qed

lemma geometric_zero:
  "spec_geometric A 0 15 = A # replicate 14 0"
proof -
  have "[1..15] = (1::int) # [2..15]" by (simp add: upto_rec1)
  moreover have "map (\<lambda>order. A * (0\<^sup>2) ^ nat (order - 1)) [2..15] =
      map (\<lambda>order. 0) [2..15]"
    by (rule map_cong) (auto simp add: power_0_left)
  moreover have "replicate 14 (0::real) = [0, 0, 0, 0, 0, 0, 0, 0, 0, 0, 0, 0, 0, 0]"
    by (simp add: numeral_eq_Suc)
  then have "map (\<lambda>order::int. 0::real) [2..15] = replicate 14 0"
    by simp
  ultimately show ?thesis by (simp add: spec_geometric_def)
qed

lemma no_film_amplitudes:
  "ret_s_amplitudes (projr (calculate_interference 15 500 1 25000 1 (25 * pi / 180) (pi / 3)
      0.001 (15 * pi / 180))) = Asi # replicate 14 0"
proof -
  have x: "0 < 15 * pi / 180" "15 * pi / 180 < pi / 2" by simp_all
  have t: "Ts (15 * pi / 180) (15 * pi / 180) = 1" using x by (rule Ts_same)
  obtain res where r:
    "calculate_interference 15 500 1 25000 1 (25 * pi / 180) (pi / 3) 0.001 (15 * pi / 180) = Inr res"
    "ret_s_amplitudes res =
      spec_geometric (Asi * Ts (15 * pi / 180) (arcsin (sin (15 * pi / 180) / 1)) *
          Ts (arcsin (sin (15 * pi / 180) / 1)) (15 * pi / 180))
        (Rs (15 * pi / 180) (arcsin (sin (15 * pi / 180) / 1))) 15"
    using interference_amplitudes [of "0.001" 500 15 1 25000 1 "25 * pi / 180" "pi / 3" "15 * pi / 180"]
    by auto
  have "ret_s_amplitudes res = spec_geometric Asi 0 15"
    unfolding r(2) refraction_same Rs_same t by simp
  then show ?thesis unfolding r(1) sum.sel by (simp only: geometric_zero)
qed

subsection \<open>The sweep of a call\<close>

lemma default_sweep: "- (pi / 3) < pi / 3 + 0.001"
proof -
  have "0 < pi / 3" by simp
  moreover have "(0::real) < 0.001" by simp
  ultimately have "- (pi / 3) < 0" "0 < pi / 3 + 0.001" by (simp_all add: add_pos_pos)
  then show ?thesis by (rule less_trans)
qed

lemma interference_sweep:
  assumes "0 < delta_theta" "- theta_max < theta_max + delta_theta" "lambda \<noteq> 0"
  shows "\<exists>res. calculate_interference N lambda n h Ai a theta_max delta_theta fixed_angle = Inr res \<and>
     ret_i1 res \<noteq> [] \<and>
     hd (ret_i1 res) = - theta_max \<and>
     last (ret_i1 res) \<ge> theta_max - delta_theta \<and>
     sorted_wrt (<) (ret_i1 res) \<and>
     ret_i1 res = map (\<lambda>j. - theta_max + real j * delta_theta) [0..<length (ret_i1 res)]"
proof -
  let ?L = "nat \<lceil>(theta_max + delta_theta - - theta_max) / delta_theta\<rceil>"
  let ?xs = "map (\<lambda>j. - theta_max + real j * delta_theta) [0..<?L]"
  have pos: "0 < ?L" using assms(1,2) by (rule arange_nonempty)
  have ar: "np_arange (- theta_max) (theta_max + delta_theta) delta_theta = Inr ?xs"
    using assms(1) by (simp add: np_arange_def)
  have ne: "?xs \<noteq> []" using pos by simp
  have h: "hd ?xs = - theta_max" using pos by (simp add: hd_map upt_conv_Cons)
  have "last ?xs = - theta_max + real (?L - 1) * delta_theta"
    using pos by (simp add: last_map)
  moreover have "theta_max + delta_theta - delta_theta \<le> - theta_max + real (?L - 1) * delta_theta"
    using assms(1,2) by (rule arange_last_index)
  ultimately have l: "theta_max - delta_theta \<le> last ?xs" using assms(1) by linarith
  have s: "sorted_wrt (<) ?xs"
    using assms(1) by (simp add: sorted_wrt_map sorted_wrt_upt)
  have "\<exists>res. calculate_interference N lambda n h Ai a theta_max delta_theta fixed_angle = Inr res \<and>
     ret_i1 res = ?xs"
    unfolding calculate_interference_def ar using assms(3) by (simp add: Let_def)
  then obtain res where r: "calculate_interference N lambda n h Ai a theta_max delta_theta fixed_angle = Inr res"
    and i: "ret_i1 res = ?xs" by blast
  have len: "length (ret_i1 res) = ?L" unfolding i by simp
  have "ret_i1 res = map (\<lambda>j. - theta_max + real j * delta_theta) [0..<length (ret_i1 res)]"
    unfolding len by (rule i)
  with r ne h l s show ?thesis unfolding i [symmetric] by blast
qed

subsection \<open>The decomposed intensity of a call\<close>


















section \<open>Properties of the thickness calculator\<close>

text \<open>
  C2. The order-correction term computed at construction is \<open>m\<close> when \<open>n2 > n1\<close> and
  \<open>m - 0.5\<close> when \<open>n2 \<le> n1\<close>, the boundary \<open>n2 = n1\<close> included, for every choice of the
  five inputs; construction raises nothing.
\<close>

theorem k_selection:
  "\<exists>self. init n1' n2' theta0_deg' nu_tilde' m' = Inr self \<and>
          (n2' > n1' \<longrightarrow> k self = m') \<and> (n2' \<le> n1' \<longrightarrow> k self = m' - 0.5)"
  by (simp add: init_def calc_cos_theta1_def calc_k_def Let_def inputs.defs calc.defs)

theorem k_selection_witness:
  "(\<exists>self. init 2.65 2.68 15 1000 1 = Inr self \<and> k self = 1) \<and>
   (\<exists>self. init 2.65 2.65 15 1000 1 = Inr self \<and> k self = 0.5)"
  using k_selection [of "2.65" "2.68" 15 1000 1] k_selection [of "2.65" "2.65" 15 1000 1]
  by auto

text \<open>
  C3, as the code has it. When the radicand \<open>1 - sin_theta1\<^sup>2\<close> is negative, nothing is
  raised: \<^verbatim>\<open>np.sqrt\<close> returns \<^verbatim>\<open>nan\<close>, the constructor stores it as \<open>cos_theta1\<close>, and
  \<open>calculate_thickness\<close> returns \<^verbatim>\<open>nan\<close> and stores it in \<open>d\<close>.
\<close>

theorem negative_radicand_gives_nan:
  assumes "np_less (np_sub (Fin 1) (np_pow (np_div (Fin (sin (np_deg2rad theta0_deg'))) (Fin n1')) 2))
             (Fin 0)"
  shows "\<exists>self. init n1' n2' theta0_deg' nu_tilde' m' = Inr self \<and> cos_theta1 self = NaN \<and>
           calculate_thickness self = Inr (NaN, self\<lparr>d := Some NaN\<rparr>)"
proof -
  have "np_sqrt (np_sub (Fin 1) (np_pow (np_div (Fin (sin (np_deg2rad theta0_deg'))) (Fin n1')) 2)) = NaN"
    using assms
    by (cases "np_sub (Fin 1) (np_pow (np_div (Fin (sin (np_deg2rad theta0_deg'))) (Fin n1')) 2)") simp_all
  then have "calc_cos_theta1 \<lparr>n1 = n1', n2 = n2', theta0_deg = theta0_deg', nu_tilde = nu_tilde', m = m'\<rparr> = Inr NaN"
    by (simp add: calc_cos_theta1_def Let_def del: np_div.simps np_sub.simps np_pow.simps)
  then show ?thesis
    by (simp add: init_def calc_k_def calculate_thickness_def Let_def inputs.defs calc.defs)
qed

theorem negative_radicand_gives_nan_witness:
  "np_less (np_sub (Fin 1) (np_pow (np_div (Fin (sin (np_deg2rad 90))) (Fin 0.5)) 2)) (Fin 0) \<and>
   (\<exists>self. init 0.5 2.68 90 1000 1 = Inr self \<and> cos_theta1 self = NaN \<and>
           calculate_thickness self = Inr (NaN, self\<lparr>d := Some NaN\<rparr>))"
proof -
  have h: "np_less (np_sub (Fin 1) (np_pow (np_div (Fin (sin (np_deg2rad 90))) (Fin 0.5)) 2))
             (Fin 0)"
    by (simp add: np_deg2rad_def numeral_2_eq_2)
  show ?thesis using h negative_radicand_gives_nan [OF h, of "2.68" 1000 1] by blast
qed

text \<open>
  The claim C3 as stated fails: with \<open>n1 = 0.5\<close> and an incidence of 90 degrees,
  \<open>sin(incidence_rad) = 1 > n1\<close>, and the constructor and \<open>calculate_thickness\<close> both
  return, the thickness being \<^verbatim>\<open>nan\<close>.
\<close>

theorem domain_error_counterexample:
  "init 0.5 2.68 90 1000 1 =
     Inr \<lparr>n1 = 0.5, n2 = 2.68, theta0_deg = 90, nu_tilde = 1000, m = 1,
          cos_theta1 = NaN, k = 1, d = None, d_dn1 = None, d_dnu = None\<rparr> \<and>
   calculate_thickness
     \<lparr>n1 = 0.5, n2 = 2.68, theta0_deg = 90, nu_tilde = 1000, m = 1,
      cos_theta1 = NaN, k = 1, d = None, d_dn1 = None, d_dnu = None\<rparr> =
     Inr (NaN, \<lparr>n1 = 0.5, n2 = 2.68, theta0_deg = 90, nu_tilde = 1000, m = 1,
      cos_theta1 = NaN, k = 1, d = Some NaN, d_dn1 = None, d_dnu = None\<rparr>)"
  by (simp add: init_def calc_cos_theta1_def calc_k_def calculate_thickness_def Let_def
        inputs.defs calc.defs np_deg2rad_def numeral_2_eq_2)

text \<open>
  C5. For a valid input, that is an incidence angle between 0 and 90 degrees and a
  positive wavenumber, with \<open>n1 > sin(incidence_rad)\<close>: the constructor stores the
  refraction cosine of the specification, \<open>calculate_thickness\<close> returns (and stores in
  \<open>d\<close>) \<open>k / (2 \<cdot> n1 \<cdot> cos(refraction) \<cdot> wavenumber)\<close>, and this is strictly positive when
  \<open>k > 0\<close>.
\<close>

theorem thickness_formula:
  assumes "0 \<le> theta0_deg'" "theta0_deg' \<le> 90" "0 < nu_tilde'" "sin (np_deg2rad theta0_deg') < n1'"
  shows "\<exists>self. init n1' n2' theta0_deg' nu_tilde' m' = Inr self \<and>
           cos_theta1 self = Fin (spec_cos_refraction theta0_deg' n1') \<and>
           calculate_thickness self =
             Inr (Fin (spec_thickness (k self) n1' (spec_cos_refraction theta0_deg' n1') nu_tilde'),
                  self\<lparr>d := Some (Fin (spec_thickness (k self) n1' (spec_cos_refraction theta0_deg' n1') nu_tilde'))\<rparr>) \<and>
           (0 < k self \<longrightarrow> 0 < spec_thickness (k self) n1' (spec_cos_refraction theta0_deg' n1') nu_tilde')"
proof -
  have s: "0 \<le> sin (np_deg2rad theta0_deg')" using assms by (simp add: sin_deg_nonneg)
  have a: "0 < n1'" using s assms by simp
  have r: "0 < 1 - (sin (np_deg2rad theta0_deg') / n1')\<^sup>2" using s assms(4) by (rule radicand_pos)
  then have c: "0 < spec_cos_refraction theta0_deg' n1'"
    by (simp add: spec_cos_refraction_def np_deg2rad_def)
  let ?self = "\<lparr>n1 = n1', n2 = n2', theta0_deg = theta0_deg', nu_tilde = nu_tilde', m = m',
          cos_theta1 = Fin (spec_cos_refraction theta0_deg' n1'),
          k = (if n2' > n1' then m' else m' - 0.5), d = None, d_dn1 = None, d_dnu = None\<rparr>"
  have i: "init n1' n2' theta0_deg' nu_tilde' m' = Inr ?self" using a r by (intro init_finite) simp_all
  have "calculate_thickness ?self =
     Inr (Fin (spec_thickness (k ?self) (n1 ?self) (spec_cos_refraction theta0_deg' n1') (nu_tilde ?self)),
          ?self\<lparr>d := Some (Fin (spec_thickness (k ?self) (n1 ?self) (spec_cos_refraction theta0_deg' n1')
             (nu_tilde ?self)))\<rparr>)"
    using a c assms(3) by (intro thickness_finite) simp_all
  then have th: "calculate_thickness ?self =
     Inr (Fin (spec_thickness (k ?self) n1' (spec_cos_refraction theta0_deg' n1') nu_tilde'),
          ?self\<lparr>d := Some (Fin (spec_thickness (k ?self) n1' (spec_cos_refraction theta0_deg' n1') nu_tilde'))\<rparr>)"
    by simp
  have p: "0 < k ?self \<longrightarrow> 0 < spec_thickness (k ?self) n1' (spec_cos_refraction theta0_deg' n1') nu_tilde'"
    using a c assms(3) by (simp add: spec_thickness_def)
  have "cos_theta1 ?self = Fin (spec_cos_refraction theta0_deg' n1')" by simp
  with i th p show ?thesis by blast
qed

theorem thickness_formula_witness:
  "(0::real) \<le> 15 \<and> (15::real) \<le> 90 \<and> (0::real) < 1000 \<and> sin (np_deg2rad 15) < 2.65 \<and>
   (\<exists>self. init 2.65 2.68 15 1000 1 = Inr self \<and>
           cos_theta1 self = Fin (spec_cos_refraction 15 2.65) \<and>
           k self = 1 \<and>
           calculate_thickness self =
             Inr (Fin (spec_thickness 1 2.65 (spec_cos_refraction 15 2.65) 1000),
                  self\<lparr>d := Some (Fin (spec_thickness 1 2.65 (spec_cos_refraction 15 2.65) 1000))\<rparr>) \<and>
           0 < spec_thickness 1 2.65 (spec_cos_refraction 15 2.65) 1000)"
proof -
  have "sin (np_deg2rad 15) \<le> 1" by (rule sin_le_one)
  also have "(1::real) < 2.65" by simp
  finally have h: "sin (np_deg2rad 15) < 2.65" .
  obtain self where s: "init 2.65 2.68 15 1000 1 = Inr self"
    "cos_theta1 self = Fin (spec_cos_refraction 15 2.65)"
    "calculate_thickness self =
       Inr (Fin (spec_thickness (k self) 2.65 (spec_cos_refraction 15 2.65) 1000),
            self\<lparr>d := Some (Fin (spec_thickness (k self) 2.65 (spec_cos_refraction 15 2.65) 1000))\<rparr>)"
    "0 < k self \<longrightarrow> 0 < spec_thickness (k self) 2.65 (spec_cos_refraction 15 2.65) 1000"
    using thickness_formula [of 15 1000 "2.65" "2.68" 1] h by auto
  have k1: "k self = 1"
    using s(1) by (auto simp add: init_def calc_cos_theta1_def calc_k_def Let_def inputs.defs calc.defs)
  show ?thesis using h s k1 by auto
qed

text \<open>
  C4, as the code has it. With the default inputs \<open>n1 = 2.65\<close>, \<open>n2 = 2.68\<close>, incidence 15
  degrees, wavenumber 1000 and \<open>m = 1\<close>: \<open>k = 1\<close>, the refraction cosine is 0.99522 to
  five significant figures (between 0.995219 and 0.99522), the thickness is
  \<open>1.8959 \<cdot> 10\<^sup>-\<^sup>4\<close> cm to four significant figures (between \<open>1.89585 \<cdot> 10\<^sup>-\<^sup>4\<close> and
  \<open>1.89595 \<cdot> 10\<^sup>-\<^sup>4\<close>), and both sensitivities are negative.
\<close>

theorem default_scenario:
  "\<exists>self c dd self1 v1 v2 self2.
     init 2.65 2.68 15 1000 1 = Inr self \<and> k self = 1 \<and>
     cos_theta1 self = Fin c \<and> 0.995219 < c \<and> c < 0.99522 \<and>
     calculate_thickness self = Inr (Fin dd, self1) \<and>
     1.89585 / 10 ^ 4 < dd \<and> dd < 1.89595 / 10 ^ 4 \<and>
     calculate_sensitivity self1 = Inr ((v1, v2), self2) \<and>
     np_less v1 (Fin 0) \<and> np_less v2 (Fin 0)"
proof -
  let ?c = "spec_cos_refraction 15 2.65"
  let ?dd = "spec_thickness 1 2.65 ?c 1000"
  let ?self = "\<lparr>n1 = 2.65, n2 = 2.68, theta0_deg = 15, nu_tilde = 1000, m = 1,
      cos_theta1 = Fin ?c, k = 1, d = None, d_dn1 = None, d_dnu = None\<rparr>"
  let ?self1 = "\<lparr>n1 = 2.65, n2 = 2.68, theta0_deg = 15, nu_tilde = 1000, m = 1,
      cos_theta1 = Fin ?c, k = 1, d = Some (Fin ?dd), d_dn1 = None, d_dnu = None\<rparr>"
  have c: "0 < ?c" using default_cos(1) by simp
  have b: "1.89585 / 10 ^ 4 < ?dd" "?dd < 1.89595 / 10 ^ 4"
    using default_cos by (rule thickness_bounds)+
  have "calculate_sensitivity ?self1 =
     Inr ((Fin (- k ?self1 / (2 * nu_tilde ?self1 * (n1 ?self1)\<^sup>2 * ?c ^ 3)),
           Fin (- k ?self1 / (2 * n1 ?self1 * ?c * (nu_tilde ?self1)\<^sup>2))),
          ?self1\<lparr>d_dn1 := Some (Fin (- k ?self1 / (2 * nu_tilde ?self1 * (n1 ?self1)\<^sup>2 * ?c ^ 3))),
               d_dnu := Some (Fin (- k ?self1 / (2 * n1 ?self1 * ?c * (nu_tilde ?self1)\<^sup>2)))\<rparr>)"
    using c by (intro sensitivity_finite) simp_all
  then obtain self2 where s: "calculate_sensitivity ?self1 =
     Inr ((Fin (- 1 / (2 * 1000 * 2.65\<^sup>2 * ?c ^ 3)), Fin (- 1 / (2 * 2.65 * ?c * 1000\<^sup>2))), self2)"
    by simp
  have n: "np_less (Fin (- 1 / (2 * 1000 * 2.65\<^sup>2 * ?c ^ 3))) (Fin 0)"
    "np_less (Fin (- 1 / (2 * 2.65 * ?c * 1000\<^sup>2))) (Fin 0)"
    using c by simp_all
  have "k ?self = 1" "cos_theta1 ?self = Fin ?c" by simp_all
  with default_init default_thickness default_cos b s n show ?thesis by blast
qed

text \<open>
  The numbers of the claim C4 fail: the refraction cosine is below 0.9953, not
  0.99946, and the thickness is above \<open>1.895 \<cdot> 10\<^sup>-\<^sup>4\<close>, not \<open>1.8868 \<cdot> 10\<^sup>-\<^sup>4\<close> (which is
  \<open>k / (2 \<cdot> n1 \<cdot> wavenumber)\<close>, the cosine left out).
\<close>

theorem default_scenario_counterexample:
  "np_less (cos_theta1 (projr (init 2.65 2.68 15 1000 1))) (Fin 0.9953) \<and>
   np_less (Fin (1.895 / 10 ^ 4))
     (fst (projr (calculate_thickness (projr (init 2.65 2.68 15 1000 1)))))"
proof -
  have 1: "spec_cos_refraction 15 2.65 < 0.9953" using default_cos(2) by simp
  have "1.89585 / 10 ^ 4 < spec_thickness 1 2.65 (spec_cos_refraction 15 2.65) 1000"
    using default_cos by (rule thickness_bounds)
  then have 2: "1.895 / 10 ^ 4 < spec_thickness 1 2.65 (spec_cos_refraction 15 2.65) 1000"
    by simp
  show ?thesis unfolding default_init sum.sel default_thickness using 1 2 by simp
qed

text \<open>
  C6. Whenever \<open>k\<close>, \<open>n1\<close>, the refraction cosine and the wavenumber of an object are all
  positive, \<open>calculate_sensitivity\<close> returns two strictly negative numbers.
\<close>

theorem sensitivities_negative:
  assumes "0 < k self" "0 < n1 self" "cos_theta1 self = Fin c" "0 < c" "0 < nu_tilde self"
  shows "\<exists>v1 v2 self'. calculate_sensitivity self = Inr ((v1, v2), self') \<and>
           np_less v1 (Fin 0) \<and> np_less v2 (Fin 0)"
  using assms
  by (simp add: calculate_sensitivity_def Let_def numeral_3_eq_3 numeral_2_eq_2 divide_neg_pos)

theorem sensitivities_negative_witness:
  "\<exists>v1 v2 self'.
     calculate_sensitivity
       \<lparr>n1 = 2.65, n2 = 2.68, theta0_deg = 0, nu_tilde = 1000, m = 1,
        cos_theta1 = Fin 1, k = 1, d = None, d_dn1 = None, d_dnu = None\<rparr> =
       Inr ((v1, v2), self') \<and>
     np_less v1 (Fin 0) \<and> np_less v2 (Fin 0)"
  using sensitivities_negative
    [of "\<lparr>n1 = 2.65, n2 = 2.68, theta0_deg = 0, nu_tilde = 1000, m = 1,
        cos_theta1 = Fin 1, k = 1, d = None, d_dn1 = None, d_dnu = None\<rparr>" 1]
  by simp

text \<open>
  C9. \<open>calculate_thickness\<close>, \<open>calculate_sensitivity\<close> and \<open>print_results\<close> raise nothing
  and return the object they were given with at most \<open>d\<close>, \<open>d_dn1\<close> and \<open>d_dnu\<close>
  rewritten: the five inputs, \<open>cos_theta1\<close> and \<open>k\<close> are unchanged.
\<close>

theorem results_only_written:
  "(\<exists>v self'. calculate_thickness self = Inr (v, self') \<and>
       self' = self\<lparr>d := d self'\<rparr>) \<and>
   (\<exists>v self'. calculate_sensitivity self = Inr (v, self') \<and>
       self' = self\<lparr>d_dn1 := d_dn1 self', d_dnu := d_dnu self'\<rparr>) \<and>
   (\<exists>self'. print_results self = Inr self' \<and>
       self' = self\<lparr>d := d self', d_dn1 := d_dn1 self', d_dnu := d_dnu self'\<rparr>)"
  by (simp add: calculate_thickness_def calculate_sensitivity_def print_results_def Let_def)

section \<open>Properties of the interference simulator\<close>




text \<open>
  C7. For a positive step, a sweep that is not empty (\<open>- theta_max < theta_max +
  delta_theta\<close>, as for every \<open>theta_max \<ge> 0\<close>) and a wavelength that is not zero, the
  call returns and the angle sweep returned is the strictly
  increasing sequence \<open>- theta_max + j \<cdot> delta_theta\<close>; its first element is \<open>- theta_max\<close>
  and its last element is at least \<open>theta_max - delta_theta\<close>.
\<close>

theorem angle_sweep:
  assumes "0 < delta_theta" "- theta_max < theta_max + delta_theta" "lambda \<noteq> 0"
  shows "\<exists>res. calculate_interference N lambda n h Ai a theta_max delta_theta fixed_angle = Inr res \<and>
     ret_i1 res \<noteq> [] \<and>
     hd (ret_i1 res) = - theta_max \<and>
     last (ret_i1 res) \<ge> theta_max - delta_theta \<and>
     sorted_wrt (<) (ret_i1 res) \<and>
     ret_i1 res = map (\<lambda>j. - theta_max + real j * delta_theta) [0..<length (ret_i1 res)]"
  using assms by (rule interference_sweep)

theorem angle_sweep_witness:
  "(0::real) < 0.001 \<and> - (pi / 3) < pi / 3 + 0.001 \<and> (500::real) \<noteq> 0 \<and>
   (\<exists>res. calculate_interference 15 500 10 25000 1 (25 * pi / 180) (pi / 3) 0.001
            (15 * pi / 180) = Inr res \<and>
     ret_i1 res \<noteq> [] \<and>
     hd (ret_i1 res) = - (pi / 3) \<and>
     last (ret_i1 res) \<ge> pi / 3 - 0.001 \<and>
     sorted_wrt (<) (ret_i1 res))"
proof -
  have h1: "(0::real) < 0.001" by simp
  have h2: "- (pi / 3) < pi / 3 + 0.001" by (rule default_sweep)
  have h3: "(500::real) \<noteq> 0" by simp
  show ?thesis
    using h1 h2 h3 angle_sweep [OF h1 h2 h3, of 15 10 25000 1 "25 * pi / 180" "15 * pi / 180"]
    by blast
qed

text \<open>
  C10. The azimuth argument \<open>a\<close> has no influence on what \<open>calculate_interference\<close>
  returns: two calls that differ only in it give the same six sequences (or raise the
  same exception). The body reads \<open>Asi\<close>, \<open>Api\<close> and, inside \<open>P\<close>, \<open>a_global\<close>.
\<close>

theorem azimuth_ignored:
  "calculate_interference N lambda n h Ai a theta_max delta_theta fixed_angle =
   calculate_interference N lambda n h Ai a' theta_max delta_theta fixed_angle"
  by (simp add: calculate_interference_def)

text \<open>
  C8, as the code has it. When the step and the wavelength are not zero the call
  returns, the amplitudes at the fixed angle follow the geometric law
  \<open>direct_amplitude \<cdot> (reflectance\<^sup>2) ^ (order - 1)\<close> for the orders \<open>1, \<dots>, N\<close>, and a
  sequence is strictly decreasing in magnitude whenever its direct amplitude is not
  zero and \<open>0 < reflectance\<^sup>2 < 1\<close>.
\<close>

theorem amplitudes_geometric:
  assumes "delta_theta \<noteq> 0" "lambda \<noteq> 0"
  shows "let r = arcsin (sin fixed_angle / n);
             As_dir = Asi * Ts fixed_angle r * Ts r fixed_angle;
             Ap_dir = Api * Tp fixed_angle r * Tp r fixed_angle
         in \<exists>res. calculate_interference N lambda n h Ai a theta_max delta_theta fixed_angle = Inr res \<and>
              ret_orders res = [1..N] \<and>
              ret_s_amplitudes res = spec_geometric As_dir (Rs fixed_angle r) N \<and>
              ret_p_amplitudes res = spec_geometric Ap_dir (Rp fixed_angle r) N \<and>
              (As_dir \<noteq> 0 \<and> 0 < (Rs fixed_angle r)\<^sup>2 \<and> (Rs fixed_angle r)\<^sup>2 < 1 \<longrightarrow>
                 strictly_decreasing_magnitude (ret_s_amplitudes res)) \<and>
              (Ap_dir \<noteq> 0 \<and> 0 < (Rp fixed_angle r)\<^sup>2 \<and> (Rp fixed_angle r)\<^sup>2 < 1 \<longrightarrow>
                 strictly_decreasing_magnitude (ret_p_amplitudes res))"
proof -
  obtain res where r:
    "calculate_interference N lambda n h Ai a theta_max delta_theta fixed_angle = Inr res"
    "ret_orders res = [1..N]"
    "ret_s_amplitudes res =
      spec_geometric (Asi * Ts fixed_angle (arcsin (sin fixed_angle / n)) * Ts (arcsin (sin fixed_angle / n)) fixed_angle)
        (Rs fixed_angle (arcsin (sin fixed_angle / n))) N"
    "ret_p_amplitudes res =
      spec_geometric (Api * Tp fixed_angle (arcsin (sin fixed_angle / n)) * Tp (arcsin (sin fixed_angle / n)) fixed_angle)
        (Rp fixed_angle (arcsin (sin fixed_angle / n))) N"
    using interference_amplitudes [OF assms] by blast
  show ?thesis
    unfolding Let_def
    by (rule exI [of _ res]) (simp add: r geometric_strict)
qed

theorem amplitudes_geometric_witness:
  "(0.001::real) \<noteq> 0 \<and> (500::real) \<noteq> 0 \<and>
   (\<exists>res. calculate_interference 15 500 (sqrt 2) 25000 1 (25 * pi / 180) (pi / 3) 0.001
            (pi / 4) = Inr res \<and>
      ret_orders res = [1..15] \<and>
      strictly_decreasing_magnitude (ret_s_amplitudes res) \<and>
      strictly_decreasing_magnitude (ret_p_amplitudes res))"
proof -
  have h: "(0.001::real) \<noteq> 0" "(500::real) \<noteq> 0" by simp_all
  have g: "0 < pi / 6" "pi / 6 < pi / 4" "pi / 4 + pi / 6 < pi / 2"
    using pi_gt_zero by simp_all
  note f = fresnel_regular [OF g]
  have a: "Asi \<noteq> 0" "Api \<noteq> 0" using Asi_Api_pos by simp_all
  have d: "Asi * Ts (pi / 4) (pi / 6) * Ts (pi / 6) (pi / 4) \<noteq> 0"
    "Api * Tp (pi / 4) (pi / 6) * Tp (pi / 6) (pi / 4) \<noteq> 0"
    using a f(5,6) by (simp_all add: mult.assoc)
  show ?thesis
    using h d f(1-4)
      amplitudes_geometric [OF h, of "pi / 4" "sqrt 2" 15 25000 1 "25 * pi / 180" "pi / 3"]
    unfolding Let_def refraction_45 by blast
qed

text \<open>
  The claim C8 as stated fails where the reflection coefficient is zero: a film of
  index 1 at the default fixed angle of 15 degrees has \<open>reflectance\<^sup>2 = 0 < 1\<close>, and the
  fifteen s-amplitudes are \<open>Asi\<close> followed by fourteen zeros.
\<close>

theorem amplitudes_counterexample:
  "(Rs (15 * pi / 180) (arcsin (sin (15 * pi / 180) / 1)))\<^sup>2 < 1 \<and>
   ret_s_amplitudes (projr (calculate_interference 15 500 1 25000 1 (25 * pi / 180) (pi / 3)
      0.001 (15 * pi / 180))) = Asi # replicate 14 0 \<and>
   \<not> strictly_decreasing_magnitude
       (ret_s_amplitudes (projr (calculate_interference 15 500 1 25000 1 (25 * pi / 180)
          (pi / 3) 0.001 (15 * pi / 180))))"
proof -
  have 1: "(Rs (15 * pi / 180) (arcsin (sin (15 * pi / 180) / 1)))\<^sup>2 < 1"
    unfolding refraction_same Rs_same by simp
  have 2: "\<not> strictly_decreasing_magnitude (Asi # replicate 14 0)"
    by (simp add: strictly_decreasing_magnitude_def numeral_eq_Suc)
  show ?thesis using 1 2 unfolding no_film_amplitudes by simp
qed

end
